theory Spec2Isabelle
  imports Main "HOL-Library.AList"
begin

section \<open>The USBGuard companion module (py3status/modules/usbguard.py)\<close>

text \<open>
  The module keeps a registry \<open>self.data\<close> of pending USB devices. A listener thread
  feeds it from two bus signals, the click handler acts on it, and the status method
  renders it. Each method becomes a function from the module's state to the state it
  leaves behind, together with the exception it raised, if any: a Python exception does
  not undo the assignments made before it.
\<close>

subsection \<open>Python values\<close>

text \<open>The values that occur in device dictionaries and as click indexes:
  \<open>None\<close>, integers and strings.\<close>

datatype atom = ANone | AInt int | AStr string

text \<open>Python's truth value of such a value, as \<open>if index\<close> takes it.\<close>

fun truthy :: "atom \<Rightarrow> bool" where
  "truthy ANone = False"
| "truthy (AInt n) = (n \<noteq> 0)"
| "truthy (AStr s) = (s \<noteq> [])"

type_synonym dict = "(string \<times> atom) list"

text \<open>A composite is a list of segments, each a text with its \<open>index\<close> tag.\<close>

type_synonym segment = "string \<times> atom"
type_synonym composite = "segment list"

datatype pyval = Atom atom | Composite composite

datatype exn = KeyError | AttributeError | DaemonError | ModuleError string

text \<open>The calls that leave the module: a request to render again, a notification and
  the daemon's \<open>applyDevicePolicy(id, target, permanent)\<close>.\<close>

datatype call = Py3Update | NotifyUser string | ApplyDevicePolicy atom int bool

fun is_daemon_call :: "call \<Rightarrow> bool" where
  "is_daemon_call (ApplyDevicePolicy i t p) = True"
| "is_daemon_call c = False"

subsection \<open>Strings\<close>

text \<open>\<open>needle in hay\<close> on Python strings: \<open>needle\<close> occurs as a contiguous run.\<close>

fun startswith :: "string \<Rightarrow> string \<Rightarrow> bool" where
  "startswith hay [] = True"
| "startswith [] (c # cs) = False"
| "startswith (h # hs) (c # cs) = (h = c \<and> startswith hs cs)"

fun py_in :: "string \<Rightarrow> string \<Rightarrow> bool" where
  "py_in needle [] = (needle = [])"
| "py_in needle (h # hs) = (startswith (h # hs) needle \<or> py_in needle hs)"

text \<open>\<open>new_key.replace('_', '-')\<close>.\<close>

definition replace_underscore :: "string \<Rightarrow> string" where
  "replace_underscore new_key = map (\<lambda>c. if c = CHR ''_'' then CHR ''-'' else c) new_key"

subsection \<open>The py3 helper\<close>

text \<open>
  The formatter \<open>py3.safe_format\<close> and \<open>py3.get_placeholders_list\<close> are not part of
  the module: they are parameters of the model.
\<close>

record py3 =
  safe_format :: "string \<Rightarrow> (string \<times> pyval) list \<Rightarrow> composite"
  get_placeholders_list :: "string \<Rightarrow> string list"

text \<open>Modelled from the spec: \<open>py3.composite_update\<close>, which is not in the module's
  file. Each unit of the composite carries the given tag (section 4.5: each joined unit
  carries the device's id as an opaque tag).\<close>

definition py3_composite_update :: "composite \<Rightarrow> atom \<Rightarrow> composite" where
  "py3_composite_update item tag = map (\<lambda>seg. (fst seg, tag)) item"

text \<open>Modelled from the spec: \<open>py3.composite_join\<close>, which is not in the module's
  file. It joins the items with the separator between them; no item gives the empty
  composite (section 4.5).\<close>

fun py3_composite_join :: "composite \<Rightarrow> composite list \<Rightarrow> composite" where
  "py3_composite_join sep [] = []"
| "py3_composite_join sep [item] = item"
| "py3_composite_join sep (item # items) = item @ sep @ py3_composite_join sep items"

text \<open>Modelled from the spec: \<open>py3.get_composite_string\<close>, the plain text of a
  composite (section 6: the notification is a plain-text message).\<close>

definition py3_get_composite_string :: "composite \<Rightarrow> string" where
  "py3_get_composite_string c = concat (map fst c)"

text \<open>Modelled from the spec: the constant \<open>py3.CACHE_FOREVER\<close>.\<close>

definition CACHE_FOREVER :: int where
  "CACHE_FOREVER = -1"

subsection \<open>Configuration, signals, clicks and the module's state\<close>

record config =
  button_allow :: "int option"
  button_block :: "int option"
  button_reject :: "int option"
  format :: string
  format_device :: string
  format_device_separator :: string
  format_notification :: string

text \<open>The class attributes: the default configuration.\<close>

definition default_config :: config where
  "default_config =
     \<lparr>button_allow = Some 1, button_block = Some 3, button_reject = None,
      format = ''[{format_device}]'', format_device = ''{name}'',
      format_device_separator =
        '' '' @ [CHR 0x5C] @ ''?color=separator '' @ [CHR 0x5C] @ ''| '',
      format_notification = ''{name} is {action}''\<rparr>"

text \<open>The positional fields \<open>event[4][0..4]\<close> of a bus signal.\<close>

record payload =
  usbguard_id :: int
  device_state :: int
  old_state :: int
  device_perms :: string
  attributes :: "(string \<times> string) list"

record click =
  button :: int
  index :: atom

text \<open>
  The attributes of the module object. \<open>proxy\<close> says whether the attribute
  \<open>self.proxy\<close> exists; \<open>calls\<close> is the trace of the calls that left the module.
\<close>

record usbguard_state =
  data :: "(int \<times> dict) list"
  new_data :: "(string \<times> composite) list"
  is_permanant :: bool
  placeholders :: "string list"
  error :: "string option"
  proxy :: bool
  calls :: "call list"

definition STRING_USBGUARD_DBUS :: string where
  "STRING_USBGUARD_DBUS = ''usbguard-dbus service not running''"

subsection \<open>Start-up\<close>

text \<open>\<open>_init_dbus\<close>; \<open>bus_ok\<close> says whether \<open>self.dbus.get\<close> returns.\<close>

definition init_dbus :: "bool \<Rightarrow> usbguard_state \<Rightarrow> usbguard_state" where
  "init_dbus bus_ok s =
     (let s1 = s\<lparr>error := None\<rparr> in
      if bus_ok then s1\<lparr>proxy := True\<rparr>
      else s1\<lparr>error := Some STRING_USBGUARD_DBUS\<rparr>)"

text \<open>\<open>_toggle_permanant\<close>.\<close>

definition toggle_permanant :: "usbguard_state \<Rightarrow> usbguard_state" where
  "toggle_permanant s = s\<lparr>is_permanant := \<not> is_permanant s\<rparr>"

definition available_placeholders :: "string list" where
  "available_placeholders =
     [''id'', ''name'', ''via_port'', ''hash'', ''parent_hash'', ''serial'',
      ''with_interface'', ''format_device'']"

text \<open>\<open>post_config_hook\<close>, from an object that has no attribute yet.\<close>

definition post_config_hook :: "py3 \<Rightarrow> config \<Rightarrow> bool \<Rightarrow> usbguard_state" where
  "post_config_hook p cfg bus_ok =
     (let s = init_dbus bus_ok
                \<lparr>data = [], new_data = [], is_permanant = False, placeholders = [],
                 error = None, proxy = False, calls = []\<rparr>;
          found = get_placeholders_list p (format_device cfg @ format_notification cfg)
      in s\<lparr>data := [], new_data := [], is_permanant := False,
           placeholders :=
             map fst
               (AList.update ''usbguard_id'' ANone
                  (map (\<lambda>placeholder. (placeholder, ANone))
                     (filter (\<lambda>placeholder. placeholder \<in> set found) available_placeholders)))\<rparr>)"

subsection \<open>Rendering the device list\<close>

text \<open>One turn of the loop of \<open>_manipulate_devices\<close>: \<open>data[device]['index']\<close>
  raises when the key is missing.\<close>

definition device_formatted :: "py3 \<Rightarrow> config \<Rightarrow> dict \<Rightarrow> exn + composite" where
  "device_formatted p cfg device =
     (case map_of device ''index'' of
        None \<Rightarrow> Inl KeyError
      | Some tag \<Rightarrow>
          Inr (py3_composite_update
                 (safe_format p (format_device cfg) (map (\<lambda>(k, v). (k, Atom v)) device)) tag))"

fun format_devices :: "py3 \<Rightarrow> config \<Rightarrow> (int \<times> dict) list \<Rightarrow> exn + composite list" where
  "format_devices p cfg [] = Inr []"
| "format_devices p cfg (kd # rest) =
     (case device_formatted p cfg (snd kd) of
        Inl e \<Rightarrow> Inl e
      | Inr c \<Rightarrow>
          (case format_devices p cfg rest of
             Inl e \<Rightarrow> Inl e
           | Inr cs \<Rightarrow> Inr (c # cs)))"

definition manipulate_devices :: "py3 \<Rightarrow> config \<Rightarrow> (int \<times> dict) list \<Rightarrow> exn + composite" where
  "manipulate_devices p cfg d =
     (let sep = py3_composite_update (safe_format p (format_device_separator cfg) []) (AStr ''sep'')
      in case format_devices p cfg d of
           Inl e \<Rightarrow> Inl e
         | Inr fd \<Rightarrow> Inr (py3_composite_join sep fd))"

text \<open>\<open>self.new_data['format_device'] = self._manipulate_devices(self.data)\<close>: when the
  right-hand side raises, nothing is assigned.\<close>

definition refresh :: "py3 \<Rightarrow> config \<Rightarrow> usbguard_state \<Rightarrow> exn option \<times> usbguard_state" where
  "refresh p cfg s =
     (case manipulate_devices p cfg (data s) of
        Inl e \<Rightarrow> (Some e, s)
      | Inr c \<Rightarrow> (None, s\<lparr>new_data := AList.update ''format_device'' c (new_data s)\<rparr>))"

definition py3_update :: "usbguard_state \<Rightarrow> usbguard_state" where
  "py3_update s = s\<lparr>calls := calls s @ [Py3Update]\<rparr>"

subsection \<open>The listener's handlers\<close>

text \<open>Lines 83 to 90: the dictionary built for an inserted device. The loop runs over
  the keys of \<open>self.parent.placeholders\<close>.\<close>

fun device_loop :: "payload \<Rightarrow> string list \<Rightarrow> dict \<Rightarrow> dict" where
  "device_loop ev [] device = device"
| "device_loop ev (new_key # keys) device =
     (let old_key = replace_underscore new_key in
      device_loop ev keys
        (case map_of (attributes ev) old_key of
           None \<Rightarrow> device
         | Some v \<Rightarrow>
             if v \<noteq> [] then AList.update new_key (AStr v) device
             else AList.update new_key ANone device))"

definition new_device :: "string list \<Rightarrow> payload \<Rightarrow> dict" where
  "new_device keys ev =
     device_loop ev keys
       [(''usbguard_id'', AInt (usbguard_id ev)), (''index'', AInt (usbguard_id ev))]"

text \<open>\<open>_on_devices_presence_changed\<close>, up to the assignment to \<open>new_data\<close>.\<close>

definition presence_registry :: "payload \<Rightarrow> usbguard_state \<Rightarrow> usbguard_state" where
  "presence_registry ev s =
     (if device_state ev = 1 then
        (if py_in ''block id'' (device_perms ev) then
           s\<lparr>data := AList.update (usbguard_id ev) (new_device (placeholders s) ev) (data s)\<rparr>
         else s)
      else
        (if map_of (data s) (usbguard_id ev) \<noteq> None then
           s\<lparr>data := AList.delete (usbguard_id ev) (data s)\<rparr>
         else s))"

definition on_devices_presence_changed ::
  "py3 \<Rightarrow> config \<Rightarrow> payload \<Rightarrow> usbguard_state \<Rightarrow> exn option \<times> usbguard_state" where
  "on_devices_presence_changed p cfg ev s =
     (case refresh p cfg (presence_registry ev s) of
        (Some e, s1) \<Rightarrow> (Some e, s1)
      | (None, s1) \<Rightarrow> (None, py3_update s1))"

text \<open>The loop of \<open>_on_devices_policy_changed\<close> over \<open>['allow id', 'reject id']\<close>,
  left by \<open>break\<close> after a deletion.\<close>

fun policy_loop ::
  "py3 \<Rightarrow> config \<Rightarrow> payload \<Rightarrow> string list \<Rightarrow> usbguard_state \<Rightarrow> exn option \<times> usbguard_state" where
  "policy_loop p cfg ev [] s = (None, s)"
| "policy_loop p cfg ev (action # actions) s =
     (if py_in action (device_perms ev) then
        (if map_of (data s) (usbguard_id ev) \<noteq> None then
           refresh p cfg (s\<lparr>data := AList.delete (usbguard_id ev) (data s)\<rparr>)
         else policy_loop p cfg ev actions s)
      else policy_loop p cfg ev actions s)"

definition on_devices_policy_changed ::
  "py3 \<Rightarrow> config \<Rightarrow> payload \<Rightarrow> usbguard_state \<Rightarrow> exn option \<times> usbguard_state" where
  "on_devices_policy_changed p cfg ev s =
     (case policy_loop p cfg ev [''allow id'', ''reject id''] s of
        (Some e, s1) \<Rightarrow> (Some e, s1)
      | (None, s1) \<Rightarrow> (None, py3_update s1))"

subsection \<open>The click handler\<close>

definition targets :: "(string \<times> int) list" where
  "targets = [(''allow'', 0), (''block'', 1), (''reject'', 2)]"

text \<open>\<open>self.data[index]\<close>: the registry's keys are integers.\<close>

fun registry_lookup :: "(int \<times> dict) list \<Rightarrow> atom \<Rightarrow> dict option" where
  "registry_lookup d (AInt n) = map_of d n"
| "registry_lookup d a = None"

fun registry_update :: "atom \<Rightarrow> dict \<Rightarrow> (int \<times> dict) list \<Rightarrow> (int \<times> dict) list" where
  "registry_update (AInt n) v d = AList.update n v d"
| "registry_update a v d = d"

fun registry_delete :: "atom \<Rightarrow> (int \<times> dict) list \<Rightarrow> (int \<times> dict) list" where
  "registry_delete (AInt n) d = AList.delete n d"
| "registry_delete a d = d"

text \<open>Lines 185 to 196: the notification. \<open>format_notification\<close> is the registry's
  own dictionary for the device, so the assignment of \<open>'action'\<close> writes into the
  registry's entry.\<close>

definition notify :: "py3 \<Rightarrow> config \<Rightarrow> string \<Rightarrow> atom \<Rightarrow> usbguard_state \<Rightarrow> exn option \<times> usbguard_state" where
  "notify p cfg action idx s =
     (if format_notification cfg \<noteq> [] then
        (case registry_lookup (data s) idx of
           None \<Rightarrow> (Some KeyError, s)
         | Some device \<Rightarrow>
             (let device' = AList.update ''action'' (AStr action) device;
                  notification =
                    py3_get_composite_string
                      (safe_format p (format_notification cfg) (map (\<lambda>(k, v). (k, Atom v)) device'))
              in (None, s\<lparr>data := registry_update idx device' (data s),
                          calls := calls s @ [NotifyUser notification]\<rparr>)))
      else (None, s))"

text \<open>Lines 198 to 206; \<open>daemon_ok\<close> says whether the daemon's call returns.\<close>

definition apply_policy ::
  "py3 \<Rightarrow> config \<Rightarrow> bool \<Rightarrow> string \<Rightarrow> atom \<Rightarrow> usbguard_state \<Rightarrow> exn option \<times> usbguard_state" where
  "apply_policy p cfg daemon_ok action usbguard_id' s =
     (if action = ''block'' then
        (case registry_lookup (data s) usbguard_id' of
           None \<Rightarrow> (Some KeyError, s)
         | Some device \<Rightarrow>
             if device \<noteq> [] then
               refresh p cfg (s\<lparr>data := registry_delete usbguard_id' (data s)\<rparr>)
             else (None, s))
      else if \<not> proxy s then (Some AttributeError, s)
      else
        (case map_of targets action of
           None \<Rightarrow> (Some KeyError, s)
         | Some target \<Rightarrow>
             (let s1 = s\<lparr>calls := calls s @ [ApplyDevicePolicy usbguard_id' target (is_permanant s)]\<rparr>
              in if daemon_ok then (None, s1) else (Some DaemonError, s1))))"

text \<open>\<open>_set_policy\<close>.\<close>

definition set_policy ::
  "py3 \<Rightarrow> config \<Rightarrow> bool \<Rightarrow> string \<Rightarrow> atom \<Rightarrow> usbguard_state \<Rightarrow> exn option \<times> usbguard_state" where
  "set_policy p cfg daemon_ok action idx s =
     (if action \<noteq> [] \<and> truthy idx \<and> idx \<noteq> AStr ''sep'' then
        (case notify p cfg action idx s of
           (Some e, s1) \<Rightarrow> (Some e, s1)
         | (None, s1) \<Rightarrow> apply_policy p cfg daemon_ok action idx s1)
      else (None, s))"

text \<open>\<open>on_click\<close>.\<close>

definition on_click ::
  "py3 \<Rightarrow> config \<Rightarrow> bool \<Rightarrow> click \<Rightarrow> usbguard_state \<Rightarrow> exn option \<times> usbguard_state" where
  "on_click p cfg daemon_ok event s =
     (if Some (button event) = button_allow cfg then
        set_policy p cfg daemon_ok ''allow'' (index event) s
      else if Some (button event) = button_reject cfg then
        set_policy p cfg daemon_ok ''reject'' (index event) s
      else if Some (button event) = button_block cfg then
        set_policy p cfg daemon_ok ''block'' (index event) s
      else (None, s))"

subsection \<open>The status method\<close>

record response =
  cached_until :: int
  urgent :: bool
  composite :: "composite option"
  full_text :: "composite option"

text \<open>\<open>usbguard\<close>. \<open>py3.error\<close> raises, so that no response is returned while
  \<open>self.error\<close> is set.\<close>

definition usbguard :: "py3 \<Rightarrow> config \<Rightarrow> usbguard_state \<Rightarrow> exn + response" where
  "usbguard p cfg s =
     (case error s of
        Some msg \<Rightarrow> Inl (ModuleError msg)
      | None \<Rightarrow>
          (let response = \<lparr>cached_until = CACHE_FOREVER, urgent = True,
                           composite = None, full_text = None\<rparr>
           in if length (new_data s) \<noteq> 0 then
                Inr (response\<lparr>composite :=
                       Some (safe_format p (format cfg)
                               (map (\<lambda>(k, v). (k, Composite v)) (new_data s)))\<rparr>)
              else
                Inr (response\<lparr>full_text :=
                       Some (safe_format p (format cfg) [(''format_device'', Atom (AStr ''''))])\<rparr>)))"

subsection \<open>Signals and clicks in sequence\<close>

datatype bus_signal = DevicePresenceChanged payload | DevicePolicyChanged payload

text \<open>The subscriptions of \<open>run\<close>: each signal goes to its handler.\<close>

fun signal_fired ::
  "py3 \<Rightarrow> config \<Rightarrow> bus_signal \<Rightarrow> usbguard_state \<Rightarrow> exn option \<times> usbguard_state" where
  "signal_fired p cfg (DevicePresenceChanged ev) s = on_devices_presence_changed p cfg ev s"
| "signal_fired p cfg (DevicePolicyChanged ev) s = on_devices_policy_changed p cfg ev s"

text \<open>The listener handles the signals in the order of their delivery; the replay
  stops at the first handler that raises.\<close>

fun listen ::
  "py3 \<Rightarrow> config \<Rightarrow> bus_signal list \<Rightarrow> usbguard_state \<Rightarrow> exn option \<times> usbguard_state" where
  "listen p cfg [] s = (None, s)"
| "listen p cfg (sg # sigs) s =
     (case signal_fired p cfg sg s of
        (Some e, s1) \<Rightarrow> (Some e, s1)
      | (None, s1) \<Rightarrow> listen p cfg sigs s1)"

text \<open>
  What reaches the module once it is configured: a signal, a click (with the answer of
  the daemon to the call the click makes, if it makes one), and the \<open>_init_dbus\<close> of the
  listener's loop. The module object outlives an exception of a handler, so the next
  input meets the state the handler left. \<open>_toggle_permanant\<close> is no input: neither
  \<open>on_click\<close> nor a handler calls it. A session is the module after
  \<open>post_config_hook\<close> and a sequence of inputs, each handled to its end before the next:
  the listener's thread and the click handler are not interleaved here, so what is
  proved of every session is proved of the serialised runs of the module.
\<close>

datatype input = Signal bus_signal | Click click bool | Reconnect bool

fun step :: "py3 \<Rightarrow> config \<Rightarrow> input \<Rightarrow> usbguard_state \<Rightarrow> usbguard_state" where
  "step p cfg (Signal sg) s = snd (signal_fired p cfg sg s)"
| "step p cfg (Click event daemon_ok) s = snd (on_click p cfg daemon_ok event s)"
| "step p cfg (Reconnect bus_ok) s = init_dbus bus_ok s"

definition session :: "py3 \<Rightarrow> config \<Rightarrow> bool \<Rightarrow> input list \<Rightarrow> usbguard_state" where
  "session p cfg bus_ok inputs = fold (step p cfg) inputs (post_config_hook p cfg bus_ok)"

subsection \<open>The events of the specification\<close>

text \<open>
  The decoded events of section 4.1, read off a signal: an insertion is a presence signal
  with state code 1 and a permission string containing \<open>block id\<close>, a removal is a
  presence signal with state code 3, a granting policy change is a policy signal whose
  permission string contains \<open>allow id\<close> or \<open>reject id\<close>.
\<close>

fun signal_id :: "bus_signal \<Rightarrow> int" where
  "signal_id (DevicePresenceChanged ev) = usbguard_id ev"
| "signal_id (DevicePolicyChanged ev) = usbguard_id ev"

fun is_insertion :: "bus_signal \<Rightarrow> bool" where
  "is_insertion (DevicePresenceChanged ev) =
     (device_state ev = 1 \<and> py_in ''block id'' (device_perms ev))"
| "is_insertion (DevicePolicyChanged ev) = False"

fun is_removal :: "bus_signal \<Rightarrow> bool" where
  "is_removal (DevicePresenceChanged ev) = (device_state ev = 3)"
| "is_removal (DevicePolicyChanged ev) = False"

fun is_grant :: "bus_signal \<Rightarrow> bool" where
  "is_grant (DevicePresenceChanged ev) = False"
| "is_grant (DevicePolicyChanged ev) =
     (py_in ''allow id'' (device_perms ev) \<or> py_in ''reject id'' (device_perms ev))"

definition decoded :: "bus_signal \<Rightarrow> bool" where
  "decoded sg = (is_insertion sg \<or> is_removal sg \<or> is_grant sg)"

text \<open>The last event of a sequence that concerns the id \<open>i\<close>, and the ids that the
  specification calls pending after the sequence: those whose last event is an
  insertion.\<close>

definition last_event :: "int \<Rightarrow> bus_signal list \<Rightarrow> bus_signal option" where
  "last_event i evs =
     (case filter (\<lambda>sg. signal_id sg = i) evs of
        [] \<Rightarrow> None
      | e # es \<Rightarrow> Some (last (e # es)))"

definition pending :: "int \<Rightarrow> bus_signal list \<Rightarrow> bool" where
  "pending i evs = (case last_event i evs of None \<Rightarrow> False | Some sg \<Rightarrow> is_insertion sg)"

subsection \<open>Predicates on the module's state\<close>

text \<open>The ids in the registry and the daemon calls in the trace.\<close>

definition registry_ids :: "usbguard_state \<Rightarrow> int set" where
  "registry_ids s = fst ` set (data s)"

definition daemon_calls :: "usbguard_state \<Rightarrow> call list" where
  "daemon_calls s = filter is_daemon_call (calls s)"

text \<open>Every dictionary that the insertion handler builds has the key \<open>index\<close>.\<close>

definition has_index :: "dict \<Rightarrow> bool" where
  "has_index device = (map_of device ''index'' \<noteq> None)"

definition wf_registry :: "(int \<times> dict) list \<Rightarrow> bool" where
  "wf_registry d = list_all (\<lambda>kd. has_index (snd kd)) d"

text \<open>
  What a registry whose entries all have their index leaves in \<open>new_data\<close>: nothing
  before the first signal, and afterwards the one key \<open>format_device\<close>, holding the
  empty composite whenever the registry is empty.
\<close>

fun rendered_new_data :: "(int \<times> dict) list \<Rightarrow> (string \<times> composite) list \<Rightarrow> bool" where
  "rendered_new_data d [] = True"
| "rendered_new_data d [kc] = (fst kc = ''format_device'' \<and> (snd kc = [] \<or> d \<noteq> []))"
| "rendered_new_data d (kc # kc' # rest) = False"

definition consistent :: "usbguard_state \<Rightarrow> bool" where
  "consistent s = (wf_registry (data s) \<and> rendered_new_data (data s) (new_data s))"

text \<open>A daemon call that asks for a permanent decision, and the states in which the flag
  is off and no such call was made.\<close>

fun is_permanent_call :: "call \<Rightarrow> bool" where
  "is_permanent_call (ApplyDevicePolicy i t permanent) = permanent"
| "is_permanent_call c = False"

definition never_permanent :: "usbguard_state \<Rightarrow> bool" where
  "never_permanent s = (\<not> is_permanant s \<and> filter is_permanent_call (calls s) = [])"

subsection \<open>Closed examples\<close>

text \<open>For the closed examples: a formatter that returns its template as one untagged
  unit, followed by the composites among its parameters, and finds the placeholders of
  the default templates.\<close>

fun composite_of :: "string \<times> pyval \<Rightarrow> composite" where
  "composite_of (k, Composite c) = c"
| "composite_of (k, Atom a) = []"

definition plain_py3 :: py3 where
  "plain_py3 =
     \<lparr>safe_format = (\<lambda>fmt params. (fmt, ANone) # concat (map composite_of params)),
      get_placeholders_list = (\<lambda>fmt. [''name'', ''action''])\<rparr>"

text \<open>The signal of the specification's scenario:
  \<open>(42, 1, 0, "block id", {"name": "Mass Storage"})\<close>.\<close>

definition mass_storage :: payload where
  "mass_storage =
     \<lparr>usbguard_id = 42, device_state = 1, old_state = 0, device_perms = ''block id'',
      attributes = [(''name'', ''Mass Storage'')]\<rparr>"

text \<open>The module after start-up with the bus connected, and after that signal.\<close>

definition started :: usbguard_state where
  "started = post_config_hook plain_py3 default_config True"

definition plugged :: usbguard_state where
  "plugged = snd (on_devices_presence_changed plain_py3 default_config mass_storage started)"

text \<open>A second insertion: a device with a port, an empty serial and no hash, for a
  module whose templates name four attributes; and the same device with no attribute.\<close>

definition usb_stick :: payload where
  "usb_stick =
     \<lparr>usbguard_id = 7, device_state = 1, old_state = 0, device_perms = ''block id'',
      attributes = [(''name'', ''Stick''), (''via-port'', ''1-2''), (''serial'', [])]\<rparr>"

definition bare_stick :: payload where
  "bare_stick = usb_stick\<lparr>attributes := []\<rparr>"

definition watching :: usbguard_state where
  "watching =
     started\<lparr>placeholders := [''name'', ''via_port'', ''serial'', ''hash'', ''usbguard_id'']\<rparr>"

text \<open>A replay for the listener: the scenario's insertion, the grant of \<open>allow\<close> for it,
  and the insertion of a second device.\<close>

definition allow_granted :: payload where
  "allow_granted =
     \<lparr>usbguard_id = 42, device_state = 0, old_state = 0, device_perms = ''allow id'',
      attributes = []\<rparr>"

definition replayed :: "bus_signal list" where
  "replayed =
     [DevicePresenceChanged mass_storage, DevicePolicyChanged allow_granted,
      DevicePresenceChanged usb_stick]"

text \<open>The scenario continued: the click of the allow button on device 42.\<close>

definition allow_click :: click where
  "allow_click = \<lparr>button = 1, index = AInt 42\<rparr>"

definition scenario :: "input list" where
  "scenario = [Signal (DevicePresenceChanged mass_storage), Click allow_click True]"

text \<open>The scenario's device dismissed by the block button.\<close>

definition block_click :: click where
  "block_click = \<lparr>button = 3, index = AInt 42\<rparr>"


text \<open>An insertion whose attributes carry the daemon's own \<open>usbguard-id\<close>.\<close>

definition relabelled :: payload where
  "relabelled =
     \<lparr>usbguard_id = 5, device_state = 1, old_state = 0, device_perms = ''block id'',
      attributes = [(''usbguard-id'', ''zz'')]\<rparr>"

text \<open>A module whose pending device has the id 0.\<close>

definition zero_plugged :: usbguard_state where
  "zero_plugged =
     snd (on_devices_presence_changed plain_py3 default_config
            (mass_storage\<lparr>usbguard_id := 0\<rparr>) started)"

section \<open>Properties\<close>

subsection \<open>Evaluation of the closed examples\<close>

lemmas example_defs = started_def plugged_def post_config_hook_def init_dbus_def plain_py3_def
  default_config_def available_placeholders_def on_devices_presence_changed_def refresh_def
  presence_registry_def mass_storage_def new_device_def replace_underscore_def
  manipulate_devices_def device_formatted_def py3_composite_update_def py3_update_def
  on_devices_policy_changed_def on_click_def set_policy_def notify_def apply_policy_def
  targets_def py3_get_composite_string_def usbguard_def CACHE_FOREVER_def registry_ids_def
  daemon_calls_def STRING_USBGUARD_DBUS_def usb_stick_def bare_stick_def watching_def
  allow_click_def block_click_def allow_granted_def relabelled_def

lemma started_value:
  "started =
     \<lparr>data = [], new_data = [], is_permanant = False,
      placeholders = [''name'', ''usbguard_id''], error = None, proxy = True, calls = []\<rparr>"
  by (simp add: example_defs)

lemma plugged_value:
  "plugged =
     \<lparr>data = [(42, [(''usbguard_id'', AInt 42), (''index'', AInt 42),
                    (''name'', AStr ''Mass Storage'')])],
      new_data = [(''format_device'', [(''{name}'', AInt 42)])],
      is_permanant = False, placeholders = [''name'', ''usbguard_id''],
      error = None, proxy = True, calls = [Py3Update]\<rparr>"
  by (simp add: example_defs)

subsection \<open>The registry after a handler\<close>

lemma refresh_data: "data (snd (refresh p cfg s)) = data s"
  by (simp add: refresh_def split: sum.splits)

lemma presence_data:
  "data (snd (on_devices_presence_changed p cfg ev s)) = data (presence_registry ev s)"
  by (simp add: on_devices_presence_changed_def refresh_def py3_update_def split: sum.splits)

subsection \<open>The dictionary of an inserted device\<close>

lemma device_loop_lookup:
  "map_of (device_loop ev keys d) k =
   (case (if k \<in> set keys then map_of (attributes ev) (replace_underscore k) else None) of
      Some v \<Rightarrow> Some (if v \<noteq> [] then AStr v else ANone)
    | None \<Rightarrow> map_of d k)"
proof (induction keys arbitrary: d)
  case Nil
  then show ?case by simp
next
  case (Cons a keys)
  show ?case
    by (cases "map_of (attributes ev) (replace_underscore a)")
       (auto simp add: Cons.IH Let_def update_conv' split: option.splits)
qed

lemma new_device_lookup:
  "map_of (new_device keys ev) k =
   (case (if k \<in> set keys then map_of (attributes ev) (replace_underscore k) else None) of
      Some v \<Rightarrow> Some (if v \<noteq> [] then AStr v else ANone)
    | None \<Rightarrow>
        (if k = ''usbguard_id'' \<or> k = ''index'' then Some (AInt (usbguard_id ev)) else None))"
  unfolding new_device_def device_loop_lookup by (auto split: option.splits)

lemma new_device_keys:
  "fst ` set (new_device keys ev) =
     {''usbguard_id'', ''index''} \<union>
     {k \<in> set keys. replace_underscore k \<in> fst ` set (attributes ev)}"
proof -
  have "dom (map_of (new_device keys ev)) =
          {''usbguard_id'', ''index''} \<union>
          {k \<in> set keys. replace_underscore k \<in> dom (map_of (attributes ev))}"
    unfolding dom_def new_device_lookup by (auto split: option.splits if_splits)
  then show ?thesis by (simp add: dom_map_of_conv_image_fst)
qed

lemma new_device_has_index: "has_index (new_device keys ev)"
  by (simp add: has_index_def new_device_lookup split: option.splits)

lemma stick_entry:
  "map_of (data (snd (on_devices_presence_changed plain_py3 default_config usb_stick watching))) 7
     = Some [(''usbguard_id'', AInt 7), (''index'', AInt 7), (''name'', AStr ''Stick''),
             (''via_port'', AStr ''1-2''), (''serial'', ANone)]"
  by (simp add: example_defs)

lemma relabelled_entry:
  "map_of (data (snd (on_devices_presence_changed plain_py3 default_config relabelled started))) 5
     = Some [(''usbguard_id'', AStr ''zz''), (''index'', AInt 5)]"
  by (simp add: relabelled_def example_defs)

text \<open>
  Claim C7, as amended. After an insertion signal (state code 1, permission string
  containing \<open>block id\<close>) the registry's entry for the signal's id has exactly the keys
  \<open>usbguard_id\<close> and \<open>index\<close> and those declared placeholders whose dash-separated name
  the daemon supplied. A declared placeholder that the daemon supplied holds the daemon's
  value under the underscore name, \<open>None\<close> when the value is empty; this includes
  \<open>usbguard_id\<close>, which is always declared, and \<open>index\<close> when it is declared, so that a
  supplied \<open>usbguard-id\<close> replaces the id under \<open>usbguard_id\<close>. Otherwise \<open>usbguard_id\<close>
  and \<open>index\<close> hold the signal's id. A declared attribute that the daemon did not supply
  gets no key.
\<close>

theorem insertion_entry_keys:
  assumes "device_state ev = 1" and "py_in ''block id'' (device_perms ev)"
  shows "\<exists>device.
           map_of (data (snd (on_devices_presence_changed p cfg ev s))) (usbguard_id ev)
             = Some device \<and>
           fst ` set device =
             {''usbguard_id'', ''index''} \<union>
             {k \<in> set (placeholders s). replace_underscore k \<in> fst ` set (attributes ev)} \<and>
           (\<forall>k v. k \<in> set (placeholders s) \<longrightarrow>
                  map_of (attributes ev) (replace_underscore k) = Some v \<longrightarrow>
                  map_of device k = Some (if v \<noteq> [] then AStr v else ANone)) \<and>
           (\<forall>k. k = ''usbguard_id'' \<or> k = ''index'' \<longrightarrow>
                \<not> (k \<in> set (placeholders s) \<and>
                   replace_underscore k \<in> fst ` set (attributes ev)) \<longrightarrow>
                map_of device k = Some (AInt (usbguard_id ev)))"
proof -
  have n: "\<And>k. replace_underscore k \<notin> fst ` set (attributes ev) \<Longrightarrow>
             map_of (attributes ev) (replace_underscore k) = None"
    by (simp add: map_of_eq_None_iff)
  show ?thesis
    using assms
    by (auto simp add: presence_data presence_registry_def update_conv' new_device_keys
        new_device_lookup n split: option.splits)
qed

theorem insertion_entry_keys_witness:
  "device_state usb_stick = 1 \<and> py_in ''block id'' (device_perms usb_stick) \<and>
   map_of (data (snd (on_devices_presence_changed plain_py3 default_config usb_stick watching))) 7
     = Some [(''usbguard_id'', AInt 7), (''index'', AInt 7), (''name'', AStr ''Stick''),
             (''via_port'', AStr ''1-2''), (''serial'', ANone)] \<and>
   device_state relabelled = 1 \<and> py_in ''block id'' (device_perms relabelled) \<and>
   map_of (data (snd (on_devices_presence_changed plain_py3 default_config relabelled started))) 5
     = Some [(''usbguard_id'', AStr ''zz''), (''index'', AInt 5)]"
proof -
  have h1: "device_state usb_stick = 1" by (simp add: usb_stick_def)
  have h2: "py_in ''block id'' (device_perms usb_stick)" by (simp add: usb_stick_def)
  have h3: "device_state relabelled = 1" by (simp add: relabelled_def)
  have h4: "py_in ''block id'' (device_perms relabelled)" by (simp add: relabelled_def)
  have "\<exists>device.
          map_of (data (snd (on_devices_presence_changed plain_py3 default_config usb_stick
            watching))) (usbguard_id usb_stick) = Some device"
    using insertion_entry_keys [OF h1 h2, of plain_py3 default_config watching]
    by (elim exE conjE) (rule exI)
  moreover have "\<exists>device.
          map_of (data (snd (on_devices_presence_changed plain_py3 default_config relabelled
            started))) (usbguard_id relabelled) = Some device"
    using insertion_entry_keys [OF h3 h4, of plain_py3 default_config started]
    by (elim exE conjE) (rule exI)
  ultimately show ?thesis using h1 h2 h3 h4 stick_entry relabelled_entry by simp
qed

text \<open>
  Claim C7, as stated, fails: \<open>name\<close> is a declared placeholder, the daemon supplies no
  attribute, and the entry has no key \<open>name\<close>.
\<close>

theorem declared_attribute_omitted:
  "''name'' \<in> set (placeholders started) \<and>
   map_of (data (snd (on_devices_presence_changed plain_py3 default_config bare_stick started))) 7
     = Some [(''usbguard_id'', AInt 7), (''index'', AInt 7)]"
  by (simp add: example_defs)

text \<open>
  Claim C10. A click whose index is the integer 0 does nothing, whatever the button:
  no exception, and the state (registry, trace of calls, everything else) is the one
  before the click.
\<close>

theorem click_index_zero_ignored:
  "on_click p cfg daemon_ok \<lparr>button = b, index = AInt 0\<rparr> s = (None, s)"
  by (simp add: on_click_def set_policy_def)

text \<open>
  Claim C4: the source at the failing input. The comment of the handler reads
  \<open>1 inserted, 3 removed\<close>, and its \<open>else\<close> branch takes every state code other than 1:
  a presence signal with state code 2, or 0, for the pending device 42 deletes its
  entry, where the claim has the registry unchanged.
\<close>

theorem state_two_removes:
  "device_state (mass_storage\<lparr>device_state := 2\<rparr>) \<noteq> 1 \<and>
   device_state (mass_storage\<lparr>device_state := 2\<rparr>) \<noteq> 3 \<and>
   map_of (data plugged) 42 \<noteq> None \<and>
   data (snd (on_devices_presence_changed plain_py3 default_config
                (mass_storage\<lparr>device_state := 2\<rparr>) plugged)) = [] \<and>
   data (snd (on_devices_presence_changed plain_py3 default_config
                (mass_storage\<lparr>device_state := 0\<rparr>) plugged)) = []"
  by (simp add: plugged_value)
     (simp add: example_defs)

subsection \<open>Well-formed registries: no handler raises\<close>

lemma ids_delete: "fst ` set (AList.delete k al) = fst ` set al - {k}"
  by (induction al) auto

lemma wf_update: "wf_registry d \<Longrightarrow> has_index v \<Longrightarrow> wf_registry (AList.update k v d)"
  by (induction d) (auto simp add: wf_registry_def)

lemma wf_delete: "wf_registry d \<Longrightarrow> wf_registry (AList.delete k d)"
  by (induction d) (auto simp add: wf_registry_def)

lemma wf_format_devices: "wf_registry d \<Longrightarrow> \<exists>cs. format_devices p cfg d = Inr cs"
proof (induction d)
  case Nil
  then show ?case by simp
next
  case (Cons kd d)
  then obtain cs where "format_devices p cfg d = Inr cs"
    by (auto simp add: wf_registry_def)
  moreover from Cons.prems obtain tag where "map_of (snd kd) ''index'' = Some tag"
    by (auto simp add: wf_registry_def has_index_def)
  ultimately show ?case by (simp add: device_formatted_def)
qed

lemma wf_refresh:
  assumes "wf_registry (data s)"
  shows "fst (refresh p cfg s) = None"
proof -
  from wf_format_devices [OF assms] obtain cs where "format_devices p cfg (data s) = Inr cs"
    by blast
  then show ?thesis by (simp add: refresh_def manipulate_devices_def)
qed

lemma wf_presence_registry: "wf_registry (data s) \<Longrightarrow> wf_registry (data (presence_registry ev s))"
  by (simp add: presence_registry_def wf_update wf_delete new_device_has_index)

lemma presence_no_exception:
  assumes "wf_registry (data s)"
  shows "fst (on_devices_presence_changed p cfg ev s) = None"
  using wf_refresh [OF wf_presence_registry [OF assms], of p cfg ev]
  by (cases "refresh p cfg (presence_registry ev s)")
     (auto simp add: on_devices_presence_changed_def split: option.splits)

lemma policy_loop_data:
  "data (snd (policy_loop p cfg ev actions s)) =
     (if (\<exists>a \<in> set actions. py_in a (device_perms ev)) \<and> map_of (data s) (usbguard_id ev) \<noteq> None
      then AList.delete (usbguard_id ev) (data s) else data s)"
  by (induction actions) (auto simp add: refresh_data)

lemma policy_loop_no_exception:
  "wf_registry (data s) \<Longrightarrow> fst (policy_loop p cfg ev actions s) = None"
proof (induction actions)
  case Nil
  then show ?case by simp
next
  case (Cons a actions)
  have "wf_registry (data (s\<lparr>data := AList.delete (usbguard_id ev) (data s)\<rparr>))"
    using Cons.prems by (simp add: wf_delete)
  from wf_refresh [OF this, of p cfg]
  show ?case using Cons by auto
qed

lemma policy_data:
  "data (snd (on_devices_policy_changed p cfg ev s)) =
     (if (py_in ''allow id'' (device_perms ev) \<or> py_in ''reject id'' (device_perms ev))
         \<and> map_of (data s) (usbguard_id ev) \<noteq> None
      then AList.delete (usbguard_id ev) (data s) else data s)"
proof -
  have "data (snd (on_devices_policy_changed p cfg ev s)) =
          data (snd (policy_loop p cfg ev [''allow id'', ''reject id''] s))"
    by (cases "policy_loop p cfg ev [''allow id'', ''reject id''] s")
       (auto simp add: on_devices_policy_changed_def py3_update_def split: option.splits)
  then show ?thesis unfolding policy_loop_data by auto
qed

lemma policy_no_exception:
  assumes "wf_registry (data s)"
  shows "fst (on_devices_policy_changed p cfg ev s) = None"
  using policy_loop_no_exception [OF assms, of p cfg ev "[''allow id'', ''reject id'']"]
  by (cases "policy_loop p cfg ev [''allow id'', ''reject id''] s")
     (auto simp add: on_devices_policy_changed_def split: option.splits)

lemma signal_no_exception:
  "wf_registry (data s) \<Longrightarrow> fst (signal_fired p cfg sg s) = None"
  by (cases sg) (simp_all add: presence_no_exception policy_no_exception)

lemma signal_wf:
  "wf_registry (data s) \<Longrightarrow> wf_registry (data (snd (signal_fired p cfg sg s)))"
  by (cases sg) (simp_all add: presence_data wf_presence_registry policy_data wf_delete)

lemma map_of_ids: "(map_of al k = None) = (k \<notin> fst ` set al)"
  by (simp add: map_of_eq_None_iff)

lemma signal_ids:
  assumes "decoded sg"
  shows "registry_ids (snd (signal_fired p cfg sg s)) =
           (if is_insertion sg then insert (signal_id sg) (registry_ids s)
            else registry_ids s - {signal_id sg})"
proof (cases sg)
  case (DevicePresenceChanged ev)
  with assms show ?thesis
    by (auto simp add: decoded_def registry_ids_def presence_data presence_registry_def
        dom_update ids_delete map_of_ids)
next
  case (DevicePolicyChanged ev)
  with assms show ?thesis
    by (auto simp add: decoded_def registry_ids_def policy_data ids_delete map_of_ids)
qed

lemma last_event_Cons:
  "last_event i (e # evs) =
     (case last_event i evs of
        None \<Rightarrow> (if signal_id e = i then Some e else None)
      | Some x \<Rightarrow> Some x)"
  by (simp add: last_event_def split: list.splits)

lemma listen_ids:
  assumes "wf_registry (data s)" and "list_all decoded evs"
  shows "\<exists>s'. listen p cfg evs s = (None, s') \<and> wf_registry (data s') \<and>
           registry_ids s' =
             {i. case last_event i evs of None \<Rightarrow> i \<in> registry_ids s | Some sg \<Rightarrow> is_insertion sg}"
  using assms
proof (induction evs arbitrary: s)
  case Nil
  then show ?case by (simp add: last_event_def)
next
  case (Cons e evs)
  obtain s1 where s1: "signal_fired p cfg e s = (None, s1)"
    using signal_no_exception [OF Cons.prems(1), of p cfg e]
    by (cases "signal_fired p cfg e s") auto
  have wf1: "wf_registry (data s1)"
    using signal_wf [OF Cons.prems(1), of p cfg e] s1 by simp
  have dec: "decoded e" and rest: "list_all decoded evs"
    using Cons.prems(2) by simp_all
  have ids1: "registry_ids s1 =
           (if is_insertion e then insert (signal_id e) (registry_ids s)
            else registry_ids s - {signal_id e})"
    using signal_ids [OF dec, of p cfg s] s1 by simp
  from Cons.IH [OF wf1 rest] obtain s' where
    l: "listen p cfg evs s1 = (None, s')" and wf': "wf_registry (data s')" and
    ids': "registry_ids s' =
             {i. case last_event i evs of None \<Rightarrow> i \<in> registry_ids s1 | Some sg \<Rightarrow> is_insertion sg}"
    by blast
  have "listen p cfg (e # evs) s = (None, s')"
    using s1 l by simp
  moreover have "registry_ids s' =
       {i. case last_event i (e # evs) of None \<Rightarrow> i \<in> registry_ids s | Some sg \<Rightarrow> is_insertion sg}"
    unfolding ids' ids1 last_event_Cons
    by (auto split: option.splits if_splits)
  ultimately show ?case using wf' by blast
qed

text \<open>
  Claim C1. From an empty registry, the listener's handlers replay any finite sequence
  of decoded insertions, removals and granting policy changes without an exception, and
  the registry then holds exactly the ids whose last event in the sequence is an
  insertion.
\<close>

theorem replay_registry:
  assumes "data s = []" and "list_all decoded evs"
  shows "\<exists>s'. listen p cfg evs s = (None, s') \<and> registry_ids s' = {i. pending i evs}"
proof -
  have "wf_registry (data s)" using assms(1) by (simp add: wf_registry_def)
  from listen_ids [OF this assms(2), of p cfg]
  show ?thesis using assms(1)
    by (auto simp add: pending_def registry_ids_def split: option.splits)
qed

theorem replay_registry_witness:
  "data started = [] \<and> list_all decoded replayed \<and>
   (\<exists>s'. listen plain_py3 default_config replayed started = (None, s') \<and>
         registry_ids s' = {i. pending i replayed}) \<and>
   pending 7 replayed \<and> \<not> pending 42 replayed"
proof -
  have h1: "data started = []" by (simp add: started_value)
  have h2: "list_all decoded replayed"
    by (simp add: replayed_def decoded_def mass_storage_def allow_granted_def usb_stick_def)
  have h3: "pending 7 replayed \<and> \<not> pending 42 replayed"
    by (simp add: pending_def last_event_def replayed_def mass_storage_def allow_granted_def
        usb_stick_def)
  show ?thesis
    using replay_registry [OF h1 h2, of plain_py3 default_config] h1 h2 h3 by simp
qed

subsection \<open>The permanent flag\<close>

lemma refresh_frame:
  "is_permanant (snd (refresh p cfg s)) = is_permanant s"
  "calls (snd (refresh p cfg s)) = calls s"
  "placeholders (snd (refresh p cfg s)) = placeholders s"
  "error (snd (refresh p cfg s)) = error s"
  "proxy (snd (refresh p cfg s)) = proxy s"
  by (simp_all add: refresh_def split: sum.splits)

lemma never_permanent_refresh:
  "never_permanent s \<Longrightarrow> never_permanent (snd (refresh p cfg s))"
  by (simp add: never_permanent_def refresh_frame)

lemma never_permanent_data [simp]:
  "never_permanent (s\<lparr>data := d\<rparr>) = never_permanent s"
  by (simp add: never_permanent_def)

lemma never_permanent_update:
  "never_permanent s \<Longrightarrow> never_permanent (py3_update s)"
  by (simp add: never_permanent_def py3_update_def)

lemma never_permanent_presence:
  "never_permanent s \<Longrightarrow> never_permanent (snd (on_devices_presence_changed p cfg ev s))"
proof -
  assume a: "never_permanent s"
  then have "never_permanent (presence_registry ev s)"
    by (simp add: presence_registry_def)
  from never_permanent_refresh [OF this, of p cfg]
  show ?thesis
    by (cases "refresh p cfg (presence_registry ev s)")
       (auto simp add: on_devices_presence_changed_def never_permanent_update split: option.splits)
qed

lemma never_permanent_policy_loop:
  "never_permanent s \<Longrightarrow> never_permanent (snd (policy_loop p cfg ev actions s))"
  by (induction actions) (auto simp add: never_permanent_refresh)

lemma never_permanent_policy:
  "never_permanent s \<Longrightarrow> never_permanent (snd (on_devices_policy_changed p cfg ev s))"
  using never_permanent_policy_loop [of s p cfg ev "[''allow id'', ''reject id'']"]
  by (cases "policy_loop p cfg ev [''allow id'', ''reject id''] s")
     (auto simp add: on_devices_policy_changed_def never_permanent_update split: option.splits)

lemma never_permanent_notify:
  "never_permanent s \<Longrightarrow> never_permanent (snd (notify p cfg action idx s))"
  by (auto simp add: notify_def never_permanent_def Let_def split: option.splits)

lemma never_permanent_apply:
  "never_permanent s \<Longrightarrow> never_permanent (snd (apply_policy p cfg ok action idx s))"
  by (auto simp add: apply_policy_def never_permanent_refresh Let_def split: option.splits)
     (auto simp add: never_permanent_def)

lemma never_permanent_set_policy:
  "never_permanent s \<Longrightarrow> never_permanent (snd (set_policy p cfg ok action idx s))"
  using never_permanent_notify [of s p cfg action idx]
  by (cases "notify p cfg action idx s")
     (auto simp add: set_policy_def never_permanent_apply split: option.splits)

lemma never_permanent_click:
  "never_permanent s \<Longrightarrow> never_permanent (snd (on_click p cfg ok event s))"
  by (simp add: on_click_def never_permanent_set_policy)

lemma never_permanent_step:
  "never_permanent s \<Longrightarrow> never_permanent (step p cfg inp s)"
proof (cases inp)
  case (Signal sg)
  assume "never_permanent s"
  with Signal show ?thesis
    by (cases sg) (simp_all add: never_permanent_presence never_permanent_policy)
next
  case (Click event ok)
  assume "never_permanent s"
  with Click show ?thesis by (simp add: never_permanent_click)
next
  case (Reconnect ok)
  assume "never_permanent s"
  with Reconnect show ?thesis by (simp add: never_permanent_def init_dbus_def Let_def)
qed

lemma never_permanent_fold:
  "never_permanent s \<Longrightarrow> never_permanent (fold (step p cfg) inputs s)"
  by (induction inputs arbitrary: s) (simp_all add: never_permanent_step)

lemma never_permanent_session: "never_permanent (session p cfg bus_ok inputs)"
  unfolding session_def
  by (rule never_permanent_fold)
     (simp add: never_permanent_def post_config_hook_def init_dbus_def Let_def)

lemma toggle_permanant_flips: "is_permanant (toggle_permanant s) = (\<not> is_permanant s)"
  by (simp add: toggle_permanant_def)

lemma scenario_calls:
  "calls (session plain_py3 default_config True scenario) =
     [Py3Update, NotifyUser ''{name} is {action}'', ApplyDevicePolicy (AInt 42) 0 False]"
  by (simp add: session_def scenario_def allow_click_def example_defs)

text \<open>
  Claim C9, as amended. The flag is off after \<open>post_config_hook\<close> and stays off under
  every sequence of signals, clicks and reconnections, and no daemon call in the trace
  asks for a permanent decision: \<open>_toggle_permanant\<close>, which would flip the flag, is
  called by no handler.
\<close>

theorem permanent_flag_stays_false:
  "is_permanant (session p cfg bus_ok inputs) = False \<and>
   filter is_permanent_call (calls (session p cfg bus_ok inputs)) = []"
  using never_permanent_session [of p cfg bus_ok inputs] by (simp add: never_permanent_def)

theorem permanent_flag_stays_false_witness:
  "is_permanant (session plain_py3 default_config True scenario) = False \<and>
   calls (session plain_py3 default_config True scenario) =
     [Py3Update, NotifyUser ''{name} is {action}'', ApplyDevicePolicy (AInt 42) 0 False]"
  using permanent_flag_stays_false [of plain_py3 default_config True scenario] scenario_calls
  by simp

text \<open>
  Claim C9, as stated, fails: no module, configuration and sequence of inputs leads to
  a daemon call with the permanent flag set.
\<close>

theorem no_sequence_sets_permanent:
  "\<not> (\<exists>p cfg bus_ok inputs i t.
         ApplyDevicePolicy i t True \<in> set (calls (session p cfg bus_ok inputs)))"
proof
  assume "\<exists>p cfg bus_ok inputs i t.
         ApplyDevicePolicy i t True \<in> set (calls (session p cfg bus_ok inputs))"
  then obtain p cfg bus_ok inputs i t where
    m: "ApplyDevicePolicy i t True \<in> set (calls (session p cfg bus_ok inputs))" by blast
  have "is_permanent_call (ApplyDevicePolicy i t True)" by simp
  with m have "ApplyDevicePolicy i t True
      \<in> set (filter is_permanent_call (calls (session p cfg bus_ok inputs)))"
    by simp
  with never_permanent_session [of p cfg bus_ok inputs] show False
    by (simp add: never_permanent_def)
qed

subsection \<open>What the status method renders\<close>









lemma wf_entry: "wf_registry d \<Longrightarrow> map_of d k = Some device \<Longrightarrow> has_index device"
  by (auto simp add: wf_registry_def list_all_iff dest!: map_of_SomeD)

lemma has_index_action: "has_index device \<Longrightarrow> has_index (AList.update k v device)"
  by (auto simp add: has_index_def update_conv')


lemma consistent_calls [simp]: "consistent (s\<lparr>calls := c\<rparr>) = consistent s"
  by (simp add: consistent_def)













subsection \<open>The click handler on a pending device\<close>

lemma pending_id: "map_of d i = Some device \<Longrightarrow> i \<in> fst ` set d"
  by (auto dest!: map_of_SomeD intro: rev_image_eqI)

lemma notify_data:
  "data (snd (notify p cfg action idx s)) =
     (if format_notification cfg \<noteq> [] then
        (case registry_lookup (data s) idx of
           None \<Rightarrow> data s
         | Some device \<Rightarrow> registry_update idx (AList.update ''action'' (AStr action) device) (data s))
      else data s)"
  by (simp add: notify_def Let_def split: option.splits)

lemma notify_exception:
  "fst (notify p cfg action idx s) =
     (if format_notification cfg \<noteq> [] \<and> registry_lookup (data s) idx = None
      then Some KeyError else None)"
  by (simp add: notify_def Let_def split: option.splits)

lemma notify_frame:
  "daemon_calls (snd (notify p cfg action idx s)) = daemon_calls s"
  "proxy (snd (notify p cfg action idx s)) = proxy s"
  "is_permanant (snd (notify p cfg action idx s)) = is_permanant s"
  by (simp_all add: notify_def Let_def daemon_calls_def split: option.splits)

lemma apply_policy_data:
  "data (snd (apply_policy p cfg ok action idx s)) =
     (if action = ''block'' then
        (case registry_lookup (data s) idx of
           None \<Rightarrow> data s
         | Some device \<Rightarrow> if device \<noteq> [] then registry_delete idx (data s) else data s)
      else data s)"
  by (simp add: apply_policy_def Let_def refresh_data split: option.splits)

lemma set_policy_unfold:
  "set_policy p cfg ok action idx s =
     (if action \<noteq> [] \<and> truthy idx \<and> idx \<noteq> AStr ''sep'' then
        (if fst (notify p cfg action idx s) = None
         then apply_policy p cfg ok action idx (snd (notify p cfg action idx s))
         else notify p cfg action idx s)
      else (None, s))"
  by (cases "notify p cfg action idx s") (auto simp add: set_policy_def split: option.splits)

lemma set_policy_pending:
  assumes "i \<noteq> 0" and "map_of (data s) i = Some device" and "action \<noteq> []"
  shows "set_policy p cfg ok action (AInt i) s =
           apply_policy p cfg ok action (AInt i) (snd (notify p cfg action (AInt i) s))"
  using assms by (simp add: set_policy_unfold notify_exception)

lemma notify_pending_data:
  assumes "map_of (data s) i = Some device"
  shows "data (snd (notify p cfg action (AInt i) s)) =
           (if format_notification cfg \<noteq> []
            then AList.update i (AList.update ''action'' (AStr action) device) (data s)
            else data s)"
  using assms by (simp add: notify_data)

lemma notify_pending_wf:
  assumes "map_of (data s) i = Some device" and "wf_registry (data s)"
  shows "wf_registry (data (snd (notify p cfg action (AInt i) s)))"
  using assms wf_entry [OF assms(2) assms(1)]
  by (simp add: notify_pending_data wf_update has_index_action)

lemma has_index_nonempty: "has_index device \<Longrightarrow> device \<noteq> []"
  by (auto simp add: has_index_def)

lemma block_pending:
  assumes "i \<noteq> 0" and "map_of (data s) i = Some device" and "wf_registry (data s)"
  shows "fst (set_policy p cfg ok ''block'' (AInt i) s) = None"
    and "registry_ids (snd (set_policy p cfg ok ''block'' (AInt i) s)) = registry_ids s - {i}"
    and "daemon_calls (snd (set_policy p cfg ok ''block'' (AInt i) s)) = daemon_calls s"
proof -
  let ?s1 = "snd (notify p cfg ''block'' (AInt i) s)"
  have sp: "set_policy p cfg ok ''block'' (AInt i) s = apply_policy p cfg ok ''block'' (AInt i) ?s1"
    using set_policy_pending [OF assms(1,2), of "''block''"] by simp
  have ne: "device \<noteq> []"
    using wf_entry [OF assms(3) assms(2)] by (rule has_index_nonempty)
  have "\<exists>device'. map_of (data ?s1) i = Some device' \<and> device' \<noteq> []"
    using assms(2) ne
    by (cases "format_notification cfg = []") (simp_all add: notify_pending_data update_conv')
  then obtain device' where l: "map_of (data ?s1) i = Some device'" and ne': "device' \<noteq> []"
    by blast
  have w: "wf_registry (data (?s1\<lparr>data := AList.delete i (data ?s1)\<rparr>))"
    using notify_pending_wf [OF assms(2,3)] by (simp add: wf_delete)
  have ap: "apply_policy p cfg ok ''block'' (AInt i) ?s1 =
              refresh p cfg (?s1\<lparr>data := AList.delete i (data ?s1)\<rparr>)"
    using l ne' by (simp add: apply_policy_def)
  show "fst (set_policy p cfg ok ''block'' (AInt i) s) = None"
    unfolding sp ap by (rule wf_refresh [OF w])
  show "registry_ids (snd (set_policy p cfg ok ''block'' (AInt i) s)) = registry_ids s - {i}"
    unfolding sp ap registry_ids_def
    using assms(2) by (auto simp add: refresh_data ids_delete notify_pending_data dom_update)
  show "daemon_calls (snd (set_policy p cfg ok ''block'' (AInt i) s)) = daemon_calls s"
    unfolding sp ap by (simp add: daemon_calls_def refresh_frame notify_frame [unfolded daemon_calls_def])
qed

lemma grant_pending:
  assumes "i \<noteq> 0" and "map_of (data s) i = Some device" and "proxy s"
    and "map_of targets action = Some target" and "action \<noteq> ''block''"
  shows "fst (set_policy p cfg ok action (AInt i) s) = (if ok then None else Some DaemonError)"
    and "daemon_calls (snd (set_policy p cfg ok action (AInt i) s)) =
           daemon_calls s @ [ApplyDevicePolicy (AInt i) target (is_permanant s)]"
    and "data (snd (set_policy p cfg ok action (AInt i) s)) =
           (if format_notification cfg \<noteq> []
            then AList.update i (AList.update ''action'' (AStr action) device) (data s)
            else data s)"
proof -
  let ?s1 = "snd (notify p cfg action (AInt i) s)"
  have a: "action \<noteq> []" using assms(4) by (auto simp add: targets_def split: if_splits)
  have sp: "set_policy p cfg ok action (AInt i) s = apply_policy p cfg ok action (AInt i) ?s1"
    using set_policy_pending [OF assms(1,2) a] by simp
  show "fst (set_policy p cfg ok action (AInt i) s) = (if ok then None else Some DaemonError)"
    unfolding sp using assms(3,4,5) by (simp add: apply_policy_def notify_frame Let_def)
  show "daemon_calls (snd (set_policy p cfg ok action (AInt i) s)) =
           daemon_calls s @ [ApplyDevicePolicy (AInt i) target (is_permanant s)]"
    unfolding sp using assms(3,4,5) notify_frame(1) [of p cfg action "AInt i" s]
    by (simp add: apply_policy_def notify_frame Let_def daemon_calls_def)
  show "data (snd (set_policy p cfg ok action (AInt i) s)) =
           (if format_notification cfg \<noteq> []
            then AList.update i (AList.update ''action'' (AStr action) device) (data s)
            else data s)"
    unfolding sp using assms(5) by (simp add: apply_policy_data notify_pending_data [OF assms(2)])
qed

lemma grant_removes:
  assumes "usbguard_id ev = i"
    and "py_in ''allow id'' (device_perms ev) \<or> py_in ''reject id'' (device_perms ev)"
  shows "i \<notin> registry_ids (snd (on_devices_policy_changed p cfg ev s))"
  using assms by (auto simp add: registry_ids_def policy_data ids_delete map_of_ids)

lemma plugged_facts:
  "map_of (data plugged) 42 =
     Some [(''usbguard_id'', AInt 42), (''index'', AInt 42), (''name'', AStr ''Mass Storage'')]"
  "wf_registry (data plugged)" "proxy plugged" "registry_ids plugged = {42}"
  "daemon_calls plugged = []" "is_permanant plugged = False"
  by (simp_all add: plugged_value wf_registry_def has_index_def registry_ids_def daemon_calls_def)

text \<open>
  Claim C2, as amended. Take a device id other than 0 that is pending, in a registry
  whose entries have their index key (every entry that the insertion handler builds
  has it), with the daemon's proxy connected. Then the dispatch of \<open>block\<close> raises
  nothing, removes the entry of the id and makes no daemon call; the dispatch of
  \<open>allow\<close> or \<open>reject\<close> makes exactly one call \<open>applyDevicePolicy\<close>, with target 0 or 2
  and the module's permanent flag, and keeps the entry; a later policy signal for the id
  that grants \<open>allow\<close> or \<open>reject\<close> removes it.
\<close>

theorem dispatch_pending_device:
  assumes "i \<noteq> 0" and "map_of (data s) i = Some device" and "wf_registry (data s)"
    and "proxy s"
  shows
    "fst (set_policy p cfg ok ''block'' (AInt i) s) = None \<and>
     registry_ids (snd (set_policy p cfg ok ''block'' (AInt i) s)) = registry_ids s - {i} \<and>
     daemon_calls (snd (set_policy p cfg ok ''block'' (AInt i) s)) = daemon_calls s \<and>
     daemon_calls (snd (set_policy p cfg ok ''allow'' (AInt i) s)) =
       daemon_calls s @ [ApplyDevicePolicy (AInt i) 0 (is_permanant s)] \<and>
     i \<in> registry_ids (snd (set_policy p cfg ok ''allow'' (AInt i) s)) \<and>
     daemon_calls (snd (set_policy p cfg ok ''reject'' (AInt i) s)) =
       daemon_calls s @ [ApplyDevicePolicy (AInt i) 2 (is_permanant s)] \<and>
     i \<in> registry_ids (snd (set_policy p cfg ok ''reject'' (AInt i) s)) \<and>
     (\<forall>ev. usbguard_id ev = i \<and> py_in ''allow id'' (device_perms ev) \<longrightarrow>
        i \<notin> registry_ids (snd (on_devices_policy_changed p cfg ev
                (snd (set_policy p cfg ok ''allow'' (AInt i) s))))) \<and>
     (\<forall>ev. usbguard_id ev = i \<and> py_in ''reject id'' (device_perms ev) \<longrightarrow>
        i \<notin> registry_ids (snd (on_devices_policy_changed p cfg ev
                (snd (set_policy p cfg ok ''reject'' (AInt i) s)))))"
proof -
  have ta: "map_of targets ''allow'' = Some 0" and tr: "map_of targets ''reject'' = Some 2"
    by (simp_all add: targets_def)
  have na: "''allow'' \<noteq> ''block''" and nr: "''reject'' \<noteq> ''block''" by simp_all
  have m: "i \<in> fst ` set (data s)"
    using assms(2) by (rule pending_id)
  have ia: "i \<in> registry_ids (snd (set_policy p cfg ok ''allow'' (AInt i) s))"
    unfolding registry_ids_def grant_pending(3) [OF assms(1,2,4) ta na]
    using m by (simp add: dom_update)
  have ir: "i \<in> registry_ids (snd (set_policy p cfg ok ''reject'' (AInt i) s))"
    unfolding registry_ids_def grant_pending(3) [OF assms(1,2,4) tr nr]
    using m by (simp add: dom_update)
  show ?thesis
    using block_pending [OF assms(1,2,3), of p cfg ok]
      grant_pending(2) [OF assms(1,2,4) ta na, of p cfg ok]
      grant_pending(2) [OF assms(1,2,4) tr nr, of p cfg ok] ia ir
    by (simp add: grant_removes)
qed

theorem dispatch_pending_device_witness:
  "(42::int) \<noteq> 0 \<and>
   map_of (data plugged) 42 =
     Some [(''usbguard_id'', AInt 42), (''index'', AInt 42), (''name'', AStr ''Mass Storage'')] \<and>
   wf_registry (data plugged) \<and> proxy plugged \<and>
   registry_ids (snd (set_policy plain_py3 default_config True ''block'' (AInt 42) plugged)) = {} \<and>
   daemon_calls (snd (set_policy plain_py3 default_config True ''block'' (AInt 42) plugged)) = [] \<and>
   daemon_calls (snd (set_policy plain_py3 default_config True ''allow'' (AInt 42) plugged)) =
     [ApplyDevicePolicy (AInt 42) 0 False] \<and>
   42 \<in> registry_ids (snd (set_policy plain_py3 default_config True ''allow'' (AInt 42) plugged)) \<and>
   42 \<notin> registry_ids (snd (on_devices_policy_changed plain_py3 default_config allow_granted
           (snd (set_policy plain_py3 default_config True ''allow'' (AInt 42) plugged))))"
proof -
  have h1: "(42::int) \<noteq> 0" by simp
  note t = dispatch_pending_device [OF h1 plugged_facts(1,2,3), of plain_py3 default_config True]
  have g: "usbguard_id allow_granted = 42 \<and> py_in ''allow id'' (device_perms allow_granted)"
    by (simp add: allow_granted_def)
  have "42 \<notin> registry_ids (snd (on_devices_policy_changed plain_py3 default_config allow_granted
           (snd (set_policy plain_py3 default_config True ''allow'' (AInt 42) plugged))))"
    using t g by blast
  then show ?thesis using t h1 by (simp add: plugged_facts)
qed

text \<open>
  Claim C2, as stated, fails for the device id 0: the device is pending, and the
  dispatch of \<open>block\<close> does not remove it, while the dispatch of \<open>allow\<close> makes no
  daemon call.
\<close>

theorem device_zero_not_dispatched:
  "0 \<in> registry_ids zero_plugged \<and>
   set_policy plain_py3 default_config True ''block'' (AInt 0) zero_plugged = (None, zero_plugged) \<and>
   set_policy plain_py3 default_config True ''allow'' (AInt 0) zero_plugged = (None, zero_plugged)"
  by (simp add: zero_plugged_def registry_ids_def set_policy_def)
     (simp add: example_defs)

text \<open>
  Claim C5, as amended. When the daemon's call of an \<open>allow\<close> or \<open>reject\<close> dispatch on
  a pending device (id other than 0, proxy connected) raises, the exception leaves
  \<open>_set_policy\<close>: nothing in the module catches or logs it. The registry keeps the same
  ids, the device among them; its entry is the one before the dispatch, but for the key
  \<open>action\<close> that the notification step wrote when a notification template is
  configured.
\<close>

theorem daemon_failure_propagates:
  assumes "i \<noteq> 0" and "map_of (data s) i = Some device" and "proxy s"
    and "action = ''allow'' \<or> action = ''reject''"
  shows
    "fst (set_policy p cfg False action (AInt i) s) = Some DaemonError \<and>
     registry_ids (snd (set_policy p cfg False action (AInt i) s)) = registry_ids s \<and>
     map_of (data (snd (set_policy p cfg False action (AInt i) s))) =
       (if format_notification cfg \<noteq> []
        then (map_of (data s))(i \<mapsto> AList.update ''action'' (AStr action) device)
        else map_of (data s))"
proof -
  obtain target where t: "map_of targets action = Some target" and n: "action \<noteq> ''block''"
    using assms(4) by (auto simp add: targets_def)
  have m: "i \<in> fst ` set (data s)"
    using assms(2) by (rule pending_id)
  show ?thesis
    using grant_pending(1) [OF assms(1,2,3) t n, of p cfg False]
      grant_pending(3) [OF assms(1,2,3) t n, of p cfg False] m
    by (auto simp add: registry_ids_def dom_update update_conv')
qed

theorem daemon_failure_propagates_witness:
  "(42::int) \<noteq> 0 \<and>
   map_of (data plugged) 42 =
     Some [(''usbguard_id'', AInt 42), (''index'', AInt 42), (''name'', AStr ''Mass Storage'')] \<and>
   proxy plugged \<and>
   fst (set_policy plain_py3 default_config False ''allow'' (AInt 42) plugged) = Some DaemonError \<and>
   registry_ids (snd (set_policy plain_py3 default_config False ''allow'' (AInt 42) plugged)) = {42}"
proof -
  have h1: "(42::int) \<noteq> 0" by simp
  have h4: "''allow'' = ''allow'' \<or> ''allow'' = ''reject''" by simp
  show ?thesis
    using daemon_failure_propagates [OF h1 plugged_facts(1,3) h4, of plain_py3 default_config] h1
    by (simp add: plugged_facts)
qed

text \<open>
  Claim C5, as stated, fails: with the daemon failing, the click of the allow button on
  the pending device 42 ends in the exception, and the registry's entry has changed.
\<close>

theorem daemon_failure_raises:
  "on_click plain_py3 default_config False allow_click plugged =
     (Some DaemonError,
      plugged\<lparr>data := [(42, [(''usbguard_id'', AInt 42), (''index'', AInt 42),
                            (''name'', AStr ''Mass Storage''), (''action'', AStr ''allow'')])],
              calls := [Py3Update, NotifyUser ''{name} is {action}'',
                        ApplyDevicePolicy (AInt 42) 0 False]\<rparr>)"
  unfolding plugged_value by (simp add: example_defs)

text \<open>
  Claim C3: the source at the failing input. The id 7 is not in the registry. With the
  default notification template, the click of the block button and the click of the
  allow button both raise \<open>KeyError\<close> at \<open>self.data[index]\<close>; with no template, the
  allow click sends \<open>applyDevicePolicy(7, 0, False)\<close> to the daemon.
\<close>

theorem unknown_device_click_raises:
  "7 \<notin> registry_ids plugged \<and>
   on_click plain_py3 default_config True \<lparr>button = 3, index = AInt 7\<rparr> plugged
     = (Some KeyError, plugged) \<and>
   on_click plain_py3 default_config True \<lparr>button = 1, index = AInt 7\<rparr> plugged
     = (Some KeyError, plugged) \<and>
   calls (snd (on_click plain_py3 (default_config\<lparr>format_notification := []\<rparr>) True
                 \<lparr>button = 1, index = AInt 7\<rparr> plugged))
     = [Py3Update, ApplyDevicePolicy (AInt 7) 0 False]"
  unfolding plugged_value by (simp add: example_defs)

subsection \<open>What an input does to an entry\<close>

lemma presence_map_of:
  "map_of (data (snd (on_devices_presence_changed p cfg ev s))) =
     (if device_state ev = 1 then
        (if py_in ''block id'' (device_perms ev)
         then (map_of (data s))(usbguard_id ev \<mapsto> new_device (placeholders s) ev)
         else map_of (data s))
      else (map_of (data s))(usbguard_id ev := None))"
  by (auto simp add: presence_data presence_registry_def update_conv' delete_conv')

lemma policy_map_of:
  "map_of (data (snd (on_devices_policy_changed p cfg ev s))) i = None \<or>
   map_of (data (snd (on_devices_policy_changed p cfg ev s))) i = map_of (data s) i"
  by (simp add: policy_data delete_conv')

lemma set_policy_data:
  "data (snd (set_policy p cfg ok action idx s)) =
     (if action \<noteq> [] \<and> truthy idx \<and> idx \<noteq> AStr ''sep''
      then data (snd (apply_policy p cfg ok action idx (snd (notify p cfg action idx s))))
      else data s)"
  by (auto simp add: set_policy_unfold notify_exception notify_data apply_policy_data)

lemma set_policy_entry:
  "map_of (data (snd (set_policy p cfg ok action idx s))) i = None \<or>
   map_of (data (snd (set_policy p cfg ok action idx s))) i = map_of (data s) i \<or>
   (idx = AInt i \<and> format_notification cfg \<noteq> [] \<and>
    (\<exists>device. map_of (data s) i = Some device \<and>
       map_of (data (snd (set_policy p cfg ok action idx s))) i =
         Some (AList.update ''action'' (AStr action) device)))"
proof (cases idx)
  case (AInt n)
  show ?thesis
  proof (cases "map_of (data s) n")
    case None
    with AInt show ?thesis
      by (simp add: set_policy_data apply_policy_data notify_data)
  next
    case (Some device)
    with AInt show ?thesis
      by (auto simp add: set_policy_data apply_policy_data notify_data update_conv' delete_conv')
  qed
qed (simp_all add: set_policy_data apply_policy_data notify_data)

text \<open>
  Claim C6, as amended. After any one input (a signal, a click, a reconnection) the
  entry of an id is absent, or the one before the input, or the fresh dictionary of an
  insertion signal for that id, or, after a click on that id with a notification
  template configured, the entry before the click with the key \<open>action\<close> written into
  it. The status method returns a response and no state: rendering changes no entry.
\<close>

theorem entry_changes:
  "map_of (data (step p cfg inp s)) i = None \<or>
   map_of (data (step p cfg inp s)) i = map_of (data s) i \<or>
   (\<exists>ev. inp = Signal (DevicePresenceChanged ev) \<and> usbguard_id ev = i \<and>
      map_of (data (step p cfg inp s)) i = Some (new_device (placeholders s) ev)) \<or>
   (\<exists>event ok action device.
      inp = Click event ok \<and> index event = AInt i \<and> format_notification cfg \<noteq> [] \<and>
      map_of (data s) i = Some device \<and>
      map_of (data (step p cfg inp s)) i = Some (AList.update ''action'' (AStr action) device))"
proof (cases inp)
  case (Signal sg)
  show ?thesis
  proof (cases sg)
    case (DevicePresenceChanged ev)
    with Signal show ?thesis by (simp add: presence_map_of)
  next
    case (DevicePolicyChanged ev)
    with Signal policy_map_of [of p cfg ev s i] show ?thesis by auto
  qed
next
  case (Click event ok)
  have "\<exists>action. snd (on_click p cfg ok event s) = snd (set_policy p cfg ok action (index event) s)
                  \<or> snd (on_click p cfg ok event s) = s"
    by (auto simp add: on_click_def)
  then obtain action where
    "snd (on_click p cfg ok event s) = snd (set_policy p cfg ok action (index event) s)
       \<or> snd (on_click p cfg ok event s) = s" by blast
  with Click set_policy_entry [of p cfg ok action "index event" s i] show ?thesis
    by auto
next
  case (Reconnect ok)
  then show ?thesis by (simp add: init_dbus_def Let_def)
qed

text \<open>
  Claim C6, as stated, fails: the click of the allow button on the pending device 42
  neither removes its entry nor replaces it by a fresh insertion, and the entry has the
  new key \<open>action\<close>.
\<close>

theorem notification_writes_entry:
  "map_of (data plugged) 42 =
     Some [(''usbguard_id'', AInt 42), (''index'', AInt 42), (''name'', AStr ''Mass Storage'')] \<and>
   map_of (data (step plain_py3 default_config (Click allow_click True) plugged)) 42 =
     Some [(''usbguard_id'', AInt 42), (''index'', AInt 42), (''name'', AStr ''Mass Storage''),
           (''action'', AStr ''allow'')]"
  unfolding plugged_value by (simp add: example_defs)

end
